theory Spec2Isabelle
  imports Complex_Main
begin

section \<open>GSC performance analysis: the analyzer of \<^verbatim>\<open>gsc_analyzer.py\<close>\<close>

text \<open>
  The development follows the class \<^verbatim>\<open>GSCAnalyzer\<close>: \<^verbatim>\<open>prepare_data\<close> (column
  mapping, required columns, numeric coercion, CTR derivation, removal of duplicates),
  the three analyses over the prepared frame and \<^verbatim>\<open>generate_insights\<close>.

  Modelling decisions.
  \<^item> Column names are strings of ASCII characters; \<^verbatim>\<open>str.lower\<close> maps \<open>A\<close>..\<open>Z\<close> to
    \<open>a\<close>..\<open>z\<close> and leaves every other character alone.
  \<^item> A cell of the uploaded frame is a number, a string or a missing value (NaN).
    Numbers are the reals: rounding, overflow and the infinities of IEEE floats are
    outside the model.
  \<^item> An exception is a value of the type \<open>error\<close>, returned as \<open>Inl\<close>.
\<close>

subsection \<open>Strings\<close>

definition lower_char :: "char \<Rightarrow> char" where
  "lower_char c =
     (case map_of (zip ''ABCDEFGHIJKLMNOPQRSTUVWXYZ'' ''abcdefghijklmnopqrstuvwxyz'') c of
        Some d \<Rightarrow> d
      | None \<Rightarrow> c)"

definition lower :: "string \<Rightarrow> string" where
  "lower s = map lower_char s"

text \<open>\<^verbatim>\<open>s.startswith(k)\<close>.\<close>

fun startswith :: "string \<Rightarrow> string \<Rightarrow> bool" where
  "startswith s [] = True"
| "startswith [] (k # ks) = False"
| "startswith (c # cs) (k # ks) = (c = k \<and> startswith cs ks)"

text \<open>\<^verbatim>\<open>k in s\<close> on strings: \<open>k\<close> occurs in \<open>s\<close> as a contiguous substring.\<close>

fun str_in :: "string \<Rightarrow> string \<Rightarrow> bool" where
  "str_in k [] = (k = [])"
| "str_in k (c # cs) = (startswith (c # cs) k \<or> str_in k cs)"

subsection \<open>Column mapping (\<^verbatim>\<open>prepare_data\<close>, lines 17 to 44)\<close>

text \<open>The dictionary literal \<^verbatim>\<open>column_mapping\<close>, in insertion order, which is the
  order \<^verbatim>\<open>.items()\<close> iterates in.\<close>

definition column_mapping :: "(string \<times> string) list" where
  "column_mapping =
     [(''query'', ''query''),
      (''keyword'', ''query''),
      (''page'', ''page''),
      (''landing page'', ''page''),
      (''url'', ''page''),
      (''address'', ''page''),
      (''clicks'', ''clicks''),
      (''impressions'', ''impressions''),
      (''ctr'', ''ctr''),
      (''url ctr'', ''ctr''),
      (''position'', ''position''),
      (''avg. pos'', ''position'')]"

text \<open>The inner loop over \<^verbatim>\<open>column_mapping.items()\<close> for one (already lower-cased)
  column: the value of the first key with \<^verbatim>\<open>key.lower() in col\<close>, where the loop
  breaks; \<open>None\<close> when the loop ends without a match.\<close>

fun first_match :: "(string \<times> string) list \<Rightarrow> string \<Rightarrow> string option" where
  "first_match [] col = None"
| "first_match ((key, val) # items) col =
     (if str_in (lower key) col then Some val else first_match items col)"

text \<open>The outer loop: \<^verbatim>\<open>rename_dict\<close> gets an entry for each column with a match.\<close>

fun build_rename_dict :: "string list \<Rightarrow> (string \<rightharpoonup> string) \<Rightarrow> (string \<rightharpoonup> string)" where
  "build_rename_dict [] d = d"
| "build_rename_dict (col # cols) d =
     (case first_match column_mapping col of
        Some val \<Rightarrow> build_rename_dict cols (d(col \<mapsto> val))
      | None \<Rightarrow> build_rename_dict cols d)"

text \<open>\<^verbatim>\<open>df.rename(columns=rename_dict)\<close>: a label with an entry is replaced, any other
  label is kept.\<close>

definition rename :: "(string \<rightharpoonup> string) \<Rightarrow> string list \<Rightarrow> string list" where
  "rename d cols = map (\<lambda>col. case d col of Some val \<Rightarrow> val | None \<Rightarrow> col) cols"

text \<open>Lines 34 to 44 on the list of column labels.\<close>

definition map_columns :: "string list \<Rightarrow> string list" where
  "map_columns columns =
     (let cols = map lower columns
      in rename (build_rename_dict cols Map.empty) cols)"


definition required_cols :: "string list" where
  "required_cols = [''query'', ''page'', ''clicks'', ''impressions'', ''ctr'', ''position'']"




subsection \<open>Frames, cells and errors\<close>

text \<open>A cell of the uploaded frame. \<open>NaN\<close> is the missing value of pandas.\<close>

datatype cell = Num real | Str string | NaN

text \<open>The uploaded frame: its column labels and its rows, each row with one cell per
  label (a frame is rectangular).\<close>

record frame =
  columns :: "string list"
  rows :: "cell list list"

text \<open>The exceptions of the model.
  \<^item> \<open>MissingColumns\<close> is the \<^verbatim>\<open>ValueError\<close> of line 50, with the list it prints.
  \<^item> \<open>DuplicateLabel\<close> stands for what pandas raises when a label that the code
    reads as one column names several columns (two input columns mapped to the same
    canonical name): \<^verbatim>\<open>df[label]\<close> is then a frame, not a series, and
    \<^verbatim>\<open>pd.to_numeric\<close>, the truth value of \<^verbatim>\<open>.isna().all()\<close> and \<^verbatim>\<open>groupby\<close> raise.
  \<^item> \<open>ZeroDivisionError\<close> is Python's, for \<^verbatim>\<open>/\<close> on two numbers with divisor 0.
  \<^item> \<open>KeyError\<close> is Python's, for \<^verbatim>\<open>d[key]\<close> on an absent key.\<close>

datatype error =
    MissingColumns "string list"
  | DuplicateLabel string
  | ZeroDivisionError
  | KeyError string

text \<open>A row of the prepared frame. \<open>query\<close> and \<open>page\<close> hold the cells under these
  labels: one cell each, unless several input columns were mapped to the label.\<close>

record nrow =
  query :: "cell list"
  page :: "cell list"
  clicks :: real
  impressions :: real
  ctr :: real
  position :: real

text \<open>The prepared frame \<^verbatim>\<open>self.df\<close>: the labels after renaming and the rows.\<close>

record pframe =
  labels :: "string list"
  prows :: "nrow list"

subsection \<open>Coercion (\<^verbatim>\<open>prepare_data\<close>, lines 52 to 66)\<close>

text \<open>The cells of a row under a label.\<close>

definition cells_at :: "string list \<Rightarrow> string \<Rightarrow> cell list \<Rightarrow> cell list" where
  "cells_at ls l row = map snd (filter (\<lambda>(l', c). l' = l) (zip ls row))"

text \<open>The cell of a row under a label that names exactly one column.\<close>

definition cell_at :: "string list \<Rightarrow> string \<Rightarrow> cell list \<Rightarrow> cell" where
  "cell_at ls l row = (case cells_at ls l row of [c] \<Rightarrow> c | _ \<Rightarrow> NaN)"

text \<open>\<^verbatim>\<open>pd.to_numeric(s, errors='coerce')\<close> on one cell. The parser of numeric strings
  belongs to pandas and is a parameter \<open>parse\<close> of the model; \<open>None\<close> is NaN.\<close>

definition to_numeric :: "(string \<Rightarrow> real option) \<Rightarrow> cell \<Rightarrow> real option" where
  "to_numeric parse c = (case c of Num x \<Rightarrow> Some x | Str s \<Rightarrow> parse s | NaN \<Rightarrow> None)"

text \<open>\<^verbatim>\<open>.fillna(0)\<close> on one value.\<close>

definition fillna0 :: "real option \<Rightarrow> real" where
  "fillna0 v = (case v of None \<Rightarrow> 0 | Some x \<Rightarrow> x)"

definition coerce :: "(string \<Rightarrow> real option) \<Rightarrow> cell \<Rightarrow> real" where
  "coerce parse c = fillna0 (to_numeric parse c)"

text \<open>\<^verbatim>\<open>(a / b).replace([np.inf, -np.inf], 0).fillna(0)\<close> on one pair of numbers:
  with \<open>b = 0\<close> the quotient is an infinity (\<open>a \<noteq> 0\<close>) or NaN (\<open>a = 0\<close>), both
  replaced by 0.\<close>

definition guarded_div :: "real \<Rightarrow> real \<Rightarrow> real" where
  "guarded_div a b = (if b = 0 then 0 else a / b)"

text \<open>\<^verbatim>\<open>.max()\<close> of a series without missing values; \<open>None\<close> (NaN) on the empty
  series.\<close>

fun series_max :: "real list \<Rightarrow> real option" where
  "series_max [] = None"
| "series_max (x # xs) = (case series_max xs of None \<Rightarrow> Some x | Some m \<Rightarrow> Some (max x m))"

text \<open>Lines 63 to 66 on the cells of the ctr column: coercion, then the division of the
  whole column by 100 when its maximum exceeds 1 (a comparison with NaN is false).\<close>

definition convert_ctr :: "(string \<Rightarrow> real option) \<Rightarrow> cell list \<Rightarrow> real list" where
  "convert_ctr parse cs =
     (let xs = map (coerce parse) cs
      in if (case series_max xs of None \<Rightarrow> False | Some m \<Rightarrow> m > 1)
         then map (\<lambda>x. x / 100) xs
         else xs)"

text \<open>Lines 57 to 66: the ctr column of the frame, one value per row. \<open>ls\<close> are the
  labels after renaming.\<close>

definition ctr_column :: "(string \<Rightarrow> real option) \<Rightarrow> string list \<Rightarrow> cell list list \<Rightarrow> real list" where
  "ctr_column parse ls rs =
     (if ''ctr'' \<notin> set ls \<or> list_all (\<lambda>row. cell_at ls ''ctr'' row = NaN) rs
      then map (\<lambda>row. guarded_div (coerce parse (cell_at ls ''clicks'' row))
                                   (coerce parse (cell_at ls ''impressions'' row))) rs
      else convert_ctr parse (map (cell_at ls ''ctr'') rs))"

text \<open>One row of the frame after lines 52 to 66, given its value in the ctr column.\<close>

definition coerce_row :: "(string \<Rightarrow> real option) \<Rightarrow> string list \<Rightarrow> cell list \<times> real \<Rightarrow> nrow" where
  "coerce_row parse ls = (\<lambda>(row, c).
     \<lparr>query = cells_at ls ''query'' row,
      page = cells_at ls ''page'' row,
      clicks = coerce parse (cell_at ls ''clicks'' row),
      impressions = coerce parse (cell_at ls ''impressions'' row),
      ctr = c,
      position = coerce parse (cell_at ls ''position'' row)\<rparr>)"

text \<open>The rows of the frame after lines 52 to 66, before the removal of duplicates.\<close>

definition convert_types :: "(string \<Rightarrow> real option) \<Rightarrow> string list \<Rightarrow> cell list list \<Rightarrow> nrow list" where
  "convert_types parse ls rs = map (coerce_row parse ls) (zip rs (ctr_column parse ls rs))"

subsection \<open>Removal of duplicates (line 69)\<close>

text \<open>\<^verbatim>\<open>drop_duplicates(subset=['query', 'page'])\<close> keeps, in input order, each row
  whose pair of keys has not been seen on an earlier row; two missing values count as
  equal.\<close>

definition key_of :: "nrow \<Rightarrow> cell list \<times> cell list" where
  "key_of r = (query r, page r)"

fun drop_dups :: "(cell list \<times> cell list) list \<Rightarrow> nrow list \<Rightarrow> nrow list" where
  "drop_dups seen [] = []"
| "drop_dups seen (r # rs) =
     (if key_of r \<in> set seen then drop_dups seen rs
      else r # drop_dups (key_of r # seen) rs)"

definition drop_duplicates :: "nrow list \<Rightarrow> nrow list" where
  "drop_duplicates rs = drop_dups [] rs"

subsection \<open>\<^verbatim>\<open>prepare_data\<close>\<close>

text \<open>The labels read as a single numeric column, in the order the code reads them
  (lines 53, 54, 55 and 58).\<close>

definition numeric_labels :: "string list" where
  "numeric_labels = [''clicks'', ''impressions'', ''position'', ''ctr'']"

definition prepare_data :: "(string \<Rightarrow> real option) \<Rightarrow> frame \<Rightarrow> error + pframe" where
  "prepare_data parse df =
     (let ls = map_columns (columns df);
          missing_cols = filter (\<lambda>col. col \<notin> set ls) required_cols
      in if missing_cols \<noteq> [] then Inl (MissingColumns missing_cols)
         else case filter (\<lambda>l. count_list ls l \<noteq> 1) numeric_labels of
                l # _ \<Rightarrow> Inl (DuplicateLabel l)
              | [] \<Rightarrow>
                  Inr \<lparr>labels = ls,
                       prows = drop_duplicates (convert_types parse ls (rows df))\<rparr>)"

subsection \<open>Aggregation (\<^verbatim>\<open>groupby(...).agg(...).reset_index()\<close>)\<close>

text \<open>An aggregated group: its key, the sums of clicks and impressions and the mean
  position of its rows.\<close>

record group =
  gkey :: cell
  gclicks :: real
  gimpressions :: real
  gposition :: real

text \<open>The cell of a key that consists of one column.\<close>

definition the_cell :: "cell list \<Rightarrow> cell" where
  "the_cell cs = (case cs of [c] \<Rightarrow> c | _ \<Rightarrow> NaN)"

text \<open>The aggregate of the rows with one key. The mean is over at least one row.\<close>

definition aggregate :: "(nrow \<Rightarrow> cell) \<Rightarrow> nrow list \<Rightarrow> cell \<Rightarrow> group" where
  "aggregate key rs k =
     (let members = filter (\<lambda>r. key r = k) rs
      in \<lparr>gkey = k,
          gclicks = sum_list (map clicks members),
          gimpressions = sum_list (map impressions members),
          gposition = sum_list (map position members) / real (length members)\<rparr>)"

text \<open>One group per distinct key; rows with a missing key are left out (the default
  \<^verbatim>\<open>dropna=True\<close> of \<^verbatim>\<open>groupby\<close>). pandas sorts the groups by key; the order of
  the groups is not modelled, and no result of the analyses depends on it but the order
  of the member lists of the performance buckets.\<close>

definition groupby_agg :: "(nrow \<Rightarrow> cell) \<Rightarrow> nrow list \<Rightarrow> group list" where
  "groupby_agg key rs =
     map (aggregate key rs) (remdups (filter (\<lambda>k. k \<noteq> NaN) (map key rs)))"

text \<open>\<^verbatim>\<open>self.df.groupby(label)\<close> raises on a label that is absent or that names several
  columns.\<close>

definition groupby :: "string \<Rightarrow> (nrow \<Rightarrow> cell list) \<Rightarrow> pframe \<Rightarrow> error + group list" where
  "groupby l sel df =
     (if count_list (labels df) l = 0 then Inl (KeyError l)
      else if count_list (labels df) l \<noteq> 1 then Inl (DuplicateLabel l)
      else Inr (groupby_agg (\<lambda>r. the_cell (sel r)) (prows df)))"

text \<open>The column \<^verbatim>\<open>ctr\<close> added to the aggregation (lines 79 to 81 and 211 to 213).\<close>

definition gctr :: "group \<Rightarrow> real" where
  "gctr g = guarded_div (gclicks g) (gimpressions g)"

subsection \<open>Dictionaries of results\<close>

text \<open>A result dictionary, in insertion order. \<^verbatim>\<open>d[k] = v\<close> replaces the value of a key
  that is present and appends a new key.\<close>

type_synonym results = "(string \<times> real) list"

fun dict_set :: "string \<Rightarrow> real \<Rightarrow> results \<Rightarrow> results" where
  "dict_set k v [] = [(k, v)]"
| "dict_set k v ((k', v') # d) = (if k' = k then (k, v) # d else (k', v') # dict_set k v d)"

text \<open>\<^verbatim>\<open>d.get(k, 0)\<close>.\<close>

definition dict_get0 :: "results \<Rightarrow> string \<Rightarrow> real" where
  "dict_get0 d k = (case map_of d k of None \<Rightarrow> 0 | Some v \<Rightarrow> v)"

text \<open>The last loop of the two analyses (lines 196 to 199 and 328 to 331), over the
  keys the dictionary had when the loop began.\<close>

fun pct_loop :: "string \<Rightarrow> real \<Rightarrow> string list \<Rightarrow> results \<Rightarrow> error + results" where
  "pct_loop pfx n [] d = Inr d"
| "pct_loop pfx n (key # keys) d =
     (if startswith key (pfx @ ''_'') \<and> key \<noteq> ''total_'' @ pfx
      then (case map_of d key of
              None \<Rightarrow> Inl (KeyError key)
            | Some v \<Rightarrow>
                if n = 0 then Inl ZeroDivisionError
                else pct_loop pfx n keys (dict_set (''pct_'' @ key) (v / n * 100) d))
      else pct_loop pfx n keys d)"

subsection \<open>\<^verbatim>\<open>query_analysis\<close> and \<^verbatim>\<open>url_analysis\<close>\<close>

text \<open>The bodies of \<^verbatim>\<open>query_analysis\<close> (lines 83 to 201) and \<^verbatim>\<open>url_analysis\<close>
  (lines 215 to 333) are the same text up to the prefix of the keys, \<^verbatim>\<open>queries\<close> or
  \<^verbatim>\<open>urls\<close>; \<open>classify\<close> is that body, with the prefix as a parameter. The counts are
  Python integers, so the first percentage (lines 94 and 226) raises
  \<^verbatim>\<open>ZeroDivisionError\<close> when there is no group. \<open>counts\<close> is the dictionary as it
  stands before the last loop, when there is a group.\<close>

definition counts :: "string \<Rightarrow> group list \<Rightarrow> results" where
  "counts pfx stats =
     (let total = real (length stats);
          n = (\<lambda>P. real (length (filter P stats)));
          results =
            [(''total_'' @ pfx, total),
             (pfx @ ''_with_clicks'', n (\<lambda>g. gclicks g > 0)),
             (pfx @ ''_with_impressions'', n (\<lambda>g. gimpressions g > 0)),
             (pfx @ ''_without_clicks'', n (\<lambda>g. gclicks g = 0)),
             (pfx @ ''_without_impressions'', n (\<lambda>g. gimpressions g = 0))]
      in fold (\<lambda>(k, v). dict_set k v)
             [(''pct_'' @ pfx @ ''_with_clicks'', n (\<lambda>g. gclicks g > 0) / total * 100),
              (''pct_'' @ pfx @ ''_with_impressions'', n (\<lambda>g. gimpressions g > 0) / total * 100),
              (''pct_'' @ pfx @ ''_without_clicks'', n (\<lambda>g. gclicks g = 0) / total * 100),
              (''pct_'' @ pfx @ ''_without_impressions'', n (\<lambda>g. gimpressions g = 0) / total * 100),
              (pfx @ ''_100clicks_1pct_ctr'', n (\<lambda>g. gclicks g \<ge> 100 \<and> gctr g < 0.01)),
              (pfx @ ''_1000clicks_1pct_ctr'', n (\<lambda>g. gclicks g \<ge> 1000 \<and> gctr g < 0.01)),
              (pfx @ ''_100impr_1pct_ctr'', n (\<lambda>g. gimpressions g \<ge> 100 \<and> gctr g < 0.01)),
              (pfx @ ''_1000impr_1pct_ctr'', n (\<lambda>g. gimpressions g \<ge> 1000 \<and> gctr g < 0.01)),
              (pfx @ ''_100clicks_pos_4_10'',
                 n (\<lambda>g. gclicks g \<ge> 100 \<and> gposition g \<ge> 4 \<and> gposition g \<le> 10)),
              (pfx @ ''_100clicks_pos_11_20'',
                 n (\<lambda>g. gclicks g \<ge> 100 \<and> gposition g \<ge> 11 \<and> gposition g \<le> 20)),
              (pfx @ ''_100clicks_pos_21_plus'', n (\<lambda>g. gclicks g \<ge> 100 \<and> gposition g \<ge> 21)),
              (pfx @ ''_1000clicks_pos_4_10'',
                 n (\<lambda>g. gclicks g \<ge> 1000 \<and> gposition g \<ge> 4 \<and> gposition g \<le> 10)),
              (pfx @ ''_1000clicks_pos_11_20'',
                 n (\<lambda>g. gclicks g \<ge> 1000 \<and> gposition g \<ge> 11 \<and> gposition g \<le> 20)),
              (pfx @ ''_1000clicks_pos_21_plus'', n (\<lambda>g. gclicks g \<ge> 1000 \<and> gposition g \<ge> 21)),
              (pfx @ ''_100impr_pos_4_10'',
                 n (\<lambda>g. gimpressions g \<ge> 100 \<and> gposition g \<ge> 4 \<and> gposition g \<le> 10)),
              (pfx @ ''_100impr_pos_11_20'',
                 n (\<lambda>g. gimpressions g \<ge> 100 \<and> gposition g \<ge> 11 \<and> gposition g \<le> 20)),
              (pfx @ ''_100impr_pos_21_plus'', n (\<lambda>g. gimpressions g \<ge> 100 \<and> gposition g \<ge> 21)),
              (pfx @ ''_1000impr_pos_4_10'',
                 n (\<lambda>g. gimpressions g \<ge> 1000 \<and> gposition g \<ge> 4 \<and> gposition g \<le> 10)),
              (pfx @ ''_1000impr_pos_11_20'',
                 n (\<lambda>g. gimpressions g \<ge> 1000 \<and> gposition g \<ge> 11 \<and> gposition g \<le> 20)),
              (pfx @ ''_1000impr_pos_21_plus'', n (\<lambda>g. gimpressions g \<ge> 1000 \<and> gposition g \<ge> 21))]
             results)"

definition classify :: "string \<Rightarrow> group list \<Rightarrow> error + results" where
  "classify pfx stats =
     (let total = real (length stats)
      in if total = 0 then Inl ZeroDivisionError
         else
           let results = counts pfx stats
           in pct_loop pfx total (map fst results) results)"

definition query_analysis :: "pframe \<Rightarrow> error + results" where
  "query_analysis df =
     (case groupby ''query'' query df of
        Inl e \<Rightarrow> Inl e
      | Inr query_stats \<Rightarrow> classify ''queries'' query_stats)"

definition url_analysis :: "pframe \<Rightarrow> error + results" where
  "url_analysis df =
     (case groupby ''page'' page df of
        Inl e \<Rightarrow> Inl e
      | Inr url_stats \<Rightarrow> classify ''urls'' url_stats)"

subsection \<open>\<^verbatim>\<open>url_performance_analysis\<close>\<close>

text \<open>The dictionary \<^verbatim>\<open>thresholds\<close> with its three keys \<^verbatim>\<open>top\<close>, \<^verbatim>\<open>good\<close> and
  \<^verbatim>\<open>weak\<close>.\<close>

record thresholds =
  thr_top :: real
  thr_good :: real
  thr_weak :: real

definition default_thresholds :: thresholds where
  "default_thresholds = \<lparr>thr_top = 1000, thr_good = 100, thr_weak = 10\<rparr>"

text \<open>The result dictionary of \<^verbatim>\<open>url_performance_analysis\<close>, one field per key.\<close>

record performance =
  total_urls :: nat
  top_urls_count :: nat
  good_urls_count :: nat
  weak_urls_count :: nat
  dead_urls_count :: nat
  opportunity_urls_count :: nat
  top_urls :: "group list"
  good_urls :: "group list"
  weak_urls :: "group list"
  dead_urls :: "group list"
  opportunity_urls :: "group list"
  pct_top_urls :: real
  pct_good_urls :: real
  pct_weak_urls :: real
  pct_dead_urls :: real
  pct_opportunity_urls :: real

text \<open>Lines 350 to 387 on the aggregation by page. The loop of lines 382 to 385
  divides two Python integers and raises when there is no page.\<close>

definition bucket :: "thresholds \<Rightarrow> group list \<Rightarrow> error + performance" where
  "bucket t url_stats =
     (let total = length url_stats;
          top_us = filter (\<lambda>g. gclicks g \<ge> thr_top t) url_stats;
          good_us = filter (\<lambda>g. gclicks g \<ge> thr_good t \<and> gclicks g < thr_top t) url_stats;
          weak_us = filter (\<lambda>g. gclicks g \<ge> thr_weak t \<and> gclicks g < thr_good t) url_stats;
          dead_us = filter (\<lambda>g. gclicks g = 0) url_stats;
          opportunity_us = filter (\<lambda>g. gclicks g = 0 \<and> gimpressions g > 0) url_stats;
          pct = (\<lambda>us. real (length us) / real total * 100)
      in if total = 0 then Inl ZeroDivisionError
         else Inr \<lparr>total_urls = total,
                   top_urls_count = length top_us,
                   good_urls_count = length good_us,
                   weak_urls_count = length weak_us,
                   dead_urls_count = length dead_us,
                   opportunity_urls_count = length opportunity_us,
                   top_urls = top_us,
                   good_urls = good_us,
                   weak_urls = weak_us,
                   dead_urls = dead_us,
                   opportunity_urls = opportunity_us,
                   pct_top_urls = pct top_us,
                   pct_good_urls = pct good_us,
                   pct_weak_urls = pct weak_us,
                   pct_dead_urls = pct dead_us,
                   pct_opportunity_urls = pct opportunity_us\<rparr>)"

definition url_performance_analysis :: "thresholds option \<Rightarrow> pframe \<Rightarrow> error + performance" where
  "url_performance_analysis thresholds df =
     (let t = (case thresholds of None \<Rightarrow> default_thresholds | Some t \<Rightarrow> t)
      in case groupby ''page'' page df of
           Inl e \<Rightarrow> Inl e
         | Inr url_stats \<Rightarrow> bucket t url_stats)"

subsection \<open>\<^verbatim>\<open>generate_insights\<close>\<close>

text \<open>The three sentences of lines 420 to 437, each with the number it prints (the
  rendering of the number, \<^verbatim>\<open>:.1f\<close>, is not modelled):
  \<^item> \<open>HighOpportunity p\<close>: ``High opportunity: p% of URLs have impressions but no
    clicks. Focus on improving CTR.''
  \<^item> \<open>LowCtrQueries n\<close>: ``Found n queries with 100+ clicks but <1% CTR. Review meta
    titles and descriptions.''
  \<^item> \<open>DeadUrls p\<close>: ``p% of URLs are dead. Consider content pruning or technical SEO
    improvements.''\<close>

datatype recommendation = HighOpportunity real | LowCtrQueries real | DeadUrls real

record insights =
  high_potential_queries :: real
  low_ctr_high_click_queries :: real
  pos_4_10 :: real
  pos_11_20 :: real
  pos_21_plus :: real
  dist_top_urls :: real
  dist_good_urls :: real
  dist_weak_urls :: real
  dist_dead_urls :: real
  dist_opportunity_urls :: real
  low_ctr_high_click_urls :: real
  recommendations :: "recommendation list"

text \<open>Lines 420 to 437: the list of recommendations, appended to in this order.\<close>

definition recommend :: "results \<Rightarrow> performance \<Rightarrow> recommendation list" where
  "recommend query_results performance_results =
     (let recs = [];
          recs = (if pct_opportunity_urls performance_results > 10
                  then recs @ [HighOpportunity (pct_opportunity_urls performance_results)]
                  else recs);
          recs = (if dict_get0 query_results ''queries_100clicks_1pct_ctr'' > 0
                  then recs @ [LowCtrQueries (dict_get0 query_results ''queries_100clicks_1pct_ctr'')]
                  else recs);
          recs = (if pct_dead_urls performance_results > 20
                  then recs @ [DeadUrls (pct_dead_urls performance_results)]
                  else recs)
      in recs)"

definition generate_insights :: "pframe \<Rightarrow> error + insights" where
  "generate_insights df =
     (case query_analysis df of
        Inl e \<Rightarrow> Inl e
      | Inr query_results \<Rightarrow>
     (case url_analysis df of
        Inl e \<Rightarrow> Inl e
      | Inr url_results \<Rightarrow>
     (case url_performance_analysis None df of
        Inl e \<Rightarrow> Inl e
      | Inr performance_results \<Rightarrow>
          Inr \<lparr>high_potential_queries = dict_get0 query_results ''queries_100impr_1pct_ctr'',
               low_ctr_high_click_queries = dict_get0 query_results ''queries_100clicks_1pct_ctr'',
               pos_4_10 = dict_get0 query_results ''queries_100clicks_pos_4_10'',
               pos_11_20 = dict_get0 query_results ''queries_100clicks_pos_11_20'',
               pos_21_plus = dict_get0 query_results ''queries_100clicks_pos_21_plus'',
               dist_top_urls = pct_top_urls performance_results,
               dist_good_urls = pct_good_urls performance_results,
               dist_weak_urls = pct_weak_urls performance_results,
               dist_dead_urls = pct_dead_urls performance_results,
               dist_opportunity_urls = pct_opportunity_urls performance_results,
               low_ctr_high_click_urls = dict_get0 url_results ''urls_100clicks_1pct_ctr'',
               recommendations = recommend query_results performance_results\<rparr>)))"

section \<open>Properties\<close>

subsection \<open>The column mapper\<close>

lemma lower_literals:
  "lower ''query'' = ''query''" "lower ''keyword'' = ''keyword''" "lower ''page'' = ''page''"
  "lower ''landing page'' = ''landing page''" "lower ''url'' = ''url''"
  "lower ''address'' = ''address''" "lower ''clicks'' = ''clicks''"
  "lower ''impressions'' = ''impressions''" "lower ''ctr'' = ''ctr''"
  "lower ''url ctr'' = ''url ctr''" "lower ''position'' = ''position''"
  "lower ''avg. pos'' = ''avg. pos''"
  by (simp_all add: lower_def lower_char_def)














subsection \<open>Evaluation on concrete frames\<close>

text \<open>The header of a Search Console export and two headers with a column left out.\<close>

lemma map_columns_header:
  "map_columns [''Query'', ''Page'', ''Clicks'', ''Impressions'', ''CTR'', ''Position'']
     = required_cols"
  by (simp add: map_columns_def required_cols_def rename_def column_mapping_def
      lower_literals lower_def lower_char_def)

lemma map_columns_no_position:
  "map_columns [''Query'', ''Page'', ''Clicks'', ''Impressions'', ''CTR'']
     = [''query'', ''page'', ''clicks'', ''impressions'', ''ctr'']"
  by (simp add: map_columns_def rename_def column_mapping_def
      lower_literals lower_def lower_char_def)

lemma map_columns_no_page:
  "map_columns [''Query'', ''Clicks'', ''Impressions'', ''CTR'', ''Position'']
     = [''query'', ''clicks'', ''impressions'', ''ctr'', ''position'']"
  by (simp add: map_columns_def rename_def column_mapping_def
      lower_literals lower_def lower_char_def)

text \<open>The definitions to unfold when a frame is evaluated.\<close>

lemmas frame_eval =
  prepare_data_def required_cols_def numeric_labels_def convert_types_def ctr_column_def
  convert_ctr_def cell_at_def cells_at_def coerce_row_def coerce_def to_numeric_def
  fillna0_def guarded_div_def drop_duplicates_def key_of_def



text \<open>Scenario C: a ctr column given in percent.\<close>

lemma prepare_scenario_C:
  "prepare_data (\<lambda>s. None)
     \<lparr>columns = [''Query'', ''Page'', ''Clicks'', ''Impressions'', ''CTR'', ''Position''],
      rows = [[Str ''shoe'', Str ''p1'', Num 150, Num 12500, Num 1.2, Num 3.2],
              [Str ''boot'', Str ''p2'', Num 34, Num 1000, Num 3.4, Num 8]]\<rparr>
   = Inr \<lparr>labels = [''query'', ''page'', ''clicks'', ''impressions'', ''ctr'', ''position''],
          prows = [\<lparr>query = [Str ''shoe''], page = [Str ''p1''], clicks = 150,
                    impressions = 12500, ctr = 0.012, position = 3.2\<rparr>,
                   \<lparr>query = [Str ''boot''], page = [Str ''p2''], clicks = 34,
                    impressions = 1000, ctr = 0.034, position = 8\<rparr>]\<rparr>"
  by (simp add: prepare_data_def map_columns_header Let_def)
     (simp add: frame_eval)

text \<open>A frame with cells that do not parse and a missing ctr cell.\<close>

lemma prepare_mixed:
  "prepare_data (\<lambda>s. None)
     \<lparr>columns = [''Query'', ''Page'', ''Clicks'', ''Impressions'', ''CTR'', ''Position''],
      rows = [[Str ''shoe'', Str ''p1'', Num 150, Num 12500, Num 1.2, Num 3.2],
              [Str ''boot'', Str ''p2'', Str ''n/a'', Num 1000, NaN, Str ''-'']]\<rparr>
   = Inr \<lparr>labels = [''query'', ''page'', ''clicks'', ''impressions'', ''ctr'', ''position''],
          prows = [\<lparr>query = [Str ''shoe''], page = [Str ''p1''], clicks = 150,
                    impressions = 12500, ctr = 0.012, position = 3.2\<rparr>,
                   \<lparr>query = [Str ''boot''], page = [Str ''p2''], clicks = 0,
                    impressions = 1000, ctr = 0, position = 0\<rparr>]\<rparr>"
  by (simp add: prepare_data_def map_columns_header Let_def) (simp add: frame_eval)

subsection \<open>Required columns\<close>

lemma prepare_data_Inr:
  assumes "prepare_data parse df = Inr pf"
  shows "labels pf = map_columns (columns df)"
    and "prows pf = drop_duplicates (convert_types parse (labels pf) (rows df))"
    and "set required_cols \<subseteq> set (labels pf)"
  using assms
  by (auto simp: prepare_data_def Let_def filter_empty_conv split: if_splits list.splits)

text \<open>Claim C1 as stated fails: a frame in which only the position column is missing is
  refused, with the error of line 50.\<close>

theorem position_missing_counterexample:
  "prepare_data (\<lambda>s. None)
     \<lparr>columns = [''Query'', ''Page'', ''Clicks'', ''Impressions'', ''CTR''],
      rows = [[Str ''shoe'', Str ''p1'', Num 150, Num 12500, Num 0.012]]\<rparr>
   = Inl (MissingColumns [''position''])"
  by (simp add: prepare_data_def map_columns_no_position required_cols_def)

text \<open>Claim C1, amended. \<^verbatim>\<open>prepare_data\<close> raises the error of line 50, with the list
  of the missing labels, whenever one of \<^verbatim>\<open>query\<close>, \<^verbatim>\<open>page\<close>, \<^verbatim>\<open>clicks\<close>,
  \<^verbatim>\<open>impressions\<close> and \<^verbatim>\<open>position\<close> is not among the labels after the mapping; it
  does not raise that error when all six labels of \<^verbatim>\<open>required_cols\<close> are there.\<close>

theorem missing_columns:
  "((\<exists>c \<in> {''query'', ''page'', ''clicks'', ''impressions'', ''position''}.
        c \<notin> set (map_columns (columns df))) \<longrightarrow>
      prepare_data parse df
        = Inl (MissingColumns (filter (\<lambda>c. c \<notin> set (map_columns (columns df))) required_cols))
      \<and> filter (\<lambda>c. c \<notin> set (map_columns (columns df))) required_cols \<noteq> [])
   \<and> ((\<forall>c \<in> set required_cols. c \<in> set (map_columns (columns df))) \<longrightarrow>
        (\<forall>m. prepare_data parse df \<noteq> Inl (MissingColumns m)))"
proof -
  have a: "prepare_data parse df
        = Inl (MissingColumns (filter (\<lambda>c. c \<notin> set (map_columns (columns df))) required_cols))
      \<and> filter (\<lambda>c. c \<notin> set (map_columns (columns df))) required_cols \<noteq> []"
    if "\<exists>c \<in> {''query'', ''page'', ''clicks'', ''impressions'', ''position''}.
        c \<notin> set (map_columns (columns df))"
  proof -
    from that have "filter (\<lambda>c. c \<notin> set (map_columns (columns df))) required_cols \<noteq> []"
      by (auto simp: filter_empty_conv required_cols_def)
    then show ?thesis by (simp add: prepare_data_def Let_def)
  qed
  have b: "\<forall>m. prepare_data parse df \<noteq> Inl (MissingColumns m)"
    if "\<forall>c \<in> set required_cols. c \<in> set (map_columns (columns df))"
  proof -
    from that have "filter (\<lambda>c. c \<notin> set (map_columns (columns df))) required_cols = []"
      by (auto simp: filter_empty_conv)
    then show ?thesis by (auto simp: prepare_data_def Let_def split: list.splits)
  qed
  from a b show ?thesis by blast
qed

theorem missing_columns_witness:
  "prepare_data (\<lambda>s. None)
     \<lparr>columns = [''Query'', ''Clicks'', ''Impressions'', ''CTR'', ''Position''],
      rows = [[Str ''shoe'', Num 150, Num 12500, Num 0.012, Num 3.2]]\<rparr>
     = Inl (MissingColumns [''page''])
   \<and> prepare_data (\<lambda>s. None)
     \<lparr>columns = [''Query'', ''Page'', ''Clicks'', ''Impressions'', ''CTR'', ''Position''],
      rows = [[Str ''shoe'', Str ''p1'', Num 150, Num 12500, Num 0.012, Num 3.2]]\<rparr>
     \<noteq> Inl (MissingColumns [''ctr''])"
  using missing_columns [of "\<lparr>columns = [''Query'', ''Clicks'', ''Impressions'', ''CTR'', ''Position''],
      rows = [[Str ''shoe'', Num 150, Num 12500, Num 0.012, Num 3.2]]\<rparr>" "\<lambda>s. None"]
    missing_columns [of "\<lparr>columns = [''Query'', ''Page'', ''Clicks'', ''Impressions'', ''CTR'', ''Position''],
      rows = [[Str ''shoe'', Str ''p1'', Num 150, Num 12500, Num 0.012, Num 3.2]]\<rparr>" "\<lambda>s. None"]
  by (simp add: map_columns_no_page map_columns_header required_cols_def)

subsection \<open>Removal of duplicates\<close>

lemma drop_dups_subset: "set (drop_dups seen rs) \<subseteq> set rs"
  by (induction rs arbitrary: seen) auto






subsection \<open>The ctr column\<close>

lemma series_max_Max: "xs \<noteq> [] \<Longrightarrow> series_max xs = Some (Max (set xs))"
proof (induction xs)
  case Nil
  then show ?case by simp
next
  case (Cons x xs)
  then show ?case by (cases "xs = []") auto
qed

lemma length_ctr_column: "length (ctr_column parse ls rs) = length rs"
  by (simp add: ctr_column_def convert_ctr_def Let_def)

lemma map_ctr_convert_types: "map ctr (convert_types parse ls rs) = ctr_column parse ls rs"
proof -
  have "map ctr (convert_types parse ls rs) = map snd (zip rs (ctr_column parse ls rs))"
    by (simp add: convert_types_def coerce_row_def split_def)
  then show ?thesis by (simp add: length_ctr_column)
qed

lemma ctr_column_provided:
  assumes "''ctr'' \<in> set ls" and "\<not> list_all (\<lambda>row. cell_at ls ''ctr'' row = NaN) rs"
  shows "ctr_column parse ls rs =
           (let xs = map (\<lambda>row. coerce parse (cell_at ls ''ctr'' row)) rs
            in if Max (set xs) > 1 then map (\<lambda>x. x / 100) xs else xs)"
proof -
  from assms(2) have "rs \<noteq> []" by auto
  then have "series_max (map (\<lambda>row. coerce parse (cell_at ls ''ctr'' row)) rs)
     = Some (Max (set (map (\<lambda>row. coerce parse (cell_at ls ''ctr'' row)) rs)))"
    by (simp add: series_max_Max)
  with assms show ?thesis
    by (simp add: ctr_column_def convert_ctr_def Let_def comp_def)
qed

text \<open>Claim C6. When the frame is accepted and its ctr column is not entirely missing,
  the column is coerced (a cell that does not parse becomes 0) and then divided by 100 as
  a whole exactly when the maximum of the coerced column exceeds 1: one decision for the
  table, the same for every row. The column \<open>[1.2, 3.4]\<close> becomes \<open>[0.012, 0.034]\<close>.\<close>

theorem ctr_percentage_table_wide:
  "(prepare_data parse df = Inr pf
      \<and> \<not> list_all (\<lambda>row. cell_at (labels pf) ''ctr'' row = NaN) (rows df) \<longrightarrow>
      prows pf = drop_duplicates (convert_types parse (labels pf) (rows df))
      \<and> map ctr (convert_types parse (labels pf) (rows df)) =
          (let xs = map (\<lambda>row. coerce parse (cell_at (labels pf) ''ctr'' row)) (rows df)
           in if Max (set xs) > 1 then map (\<lambda>x. x / 100) xs else xs))
   \<and> (to_numeric parse c = None \<longrightarrow> coerce parse c = 0)
   \<and> convert_ctr parse [Num 1.2, Num 3.4] = [0.012, 0.034]"
proof -
  have a: "prows pf = drop_duplicates (convert_types parse (labels pf) (rows df))
      \<and> map ctr (convert_types parse (labels pf) (rows df)) =
          (let xs = map (\<lambda>row. coerce parse (cell_at (labels pf) ''ctr'' row)) (rows df)
           in if Max (set xs) > 1 then map (\<lambda>x. x / 100) xs else xs)"
    if ok: "prepare_data parse df = Inr pf"
      and nn: "\<not> list_all (\<lambda>row. cell_at (labels pf) ''ctr'' row = NaN) (rows df)"
  proof -
    have "''ctr'' \<in> set (labels pf)"
      using prepare_data_Inr(3) [OF ok] by (auto simp: required_cols_def)
    then show ?thesis
      using prepare_data_Inr(2) [OF ok] ctr_column_provided [OF _ nn]
      by (simp add: map_ctr_convert_types)
  qed
  have b: "to_numeric parse c = None \<longrightarrow> coerce parse c = 0"
    by (simp add: coerce_def fillna0_def)
  have c: "convert_ctr parse [Num 1.2, Num 3.4] = [0.012, 0.034]"
    by (simp add: convert_ctr_def coerce_def to_numeric_def fillna0_def)
  from a b c show ?thesis by blast
qed

theorem ctr_percentage_table_wide_witness:
  "prepare_data (\<lambda>s. None)
     \<lparr>columns = [''Query'', ''Page'', ''Clicks'', ''Impressions'', ''CTR'', ''Position''],
      rows = [[Str ''shoe'', Str ''p1'', Num 150, Num 12500, Num 1.2, Num 3.2],
              [Str ''boot'', Str ''p2'', Num 34, Num 1000, Num 3.4, Num 8]]\<rparr>
   = Inr \<lparr>labels = [''query'', ''page'', ''clicks'', ''impressions'', ''ctr'', ''position''],
          prows = [\<lparr>query = [Str ''shoe''], page = [Str ''p1''], clicks = 150,
                    impressions = 12500, ctr = 0.012, position = 3.2\<rparr>,
                   \<lparr>query = [Str ''boot''], page = [Str ''p2''], clicks = 34,
                    impressions = 1000, ctr = 0.034, position = 8\<rparr>]\<rparr>
   \<and> map ctr (convert_types (\<lambda>s. None)
        [''query'', ''page'', ''clicks'', ''impressions'', ''ctr'', ''position'']
        [[Str ''shoe'', Str ''p1'', Num 150, Num 12500, Num 1.2, Num 3.2],
         [Str ''boot'', Str ''p2'', Num 34, Num 1000, Num 3.4, Num 8]])
     = [0.012, 0.034]"
  using ctr_percentage_table_wide [of "\<lambda>s. None" _ _ NaN, THEN conjunct1, rule_format,
      OF conjI [OF prepare_scenario_C]]
    prepare_scenario_C
  by (simp add: cell_at_def cells_at_def coerce_def to_numeric_def fillna0_def)

subsection \<open>The ranges of the fields of a prepared row\<close>

lemma coerce_cases:
  assumes "\<forall>x. to_numeric parse c = Some x \<longrightarrow> P x" and "P 0"
  shows "P (coerce parse c)"
  using assms by (cases "to_numeric parse c") (simp_all add: coerce_def fillna0_def)

lemma series_max_exceeds:
  "(case series_max xs of None \<Rightarrow> False | Some m \<Rightarrow> m > b) \<longleftrightarrow> (\<exists>x \<in> set xs. x > b)"
  by (induction xs) (auto split: option.splits)

lemma convert_ctr_range:
  assumes "\<forall>c \<in> set cs. 0 \<le> coerce parse c \<and> coerce parse c \<le> 100"
  shows "\<forall>x \<in> set (convert_ctr parse cs). 0 \<le> x \<and> x \<le> 1"
proof (cases "\<exists>x \<in> set (map (coerce parse) cs). x > 1")
  case True
  then have "convert_ctr parse cs = map (\<lambda>x. x / 100) (map (coerce parse) cs)"
    by (simp add: convert_ctr_def Let_def series_max_exceeds)
  with assms show ?thesis by auto
next
  case False
  then have "convert_ctr parse cs = map (coerce parse) cs"
    by (simp add: convert_ctr_def Let_def series_max_exceeds)
  with assms False show ?thesis by (auto simp: not_less)
qed

lemma guarded_div_range: "0 \<le> a \<Longrightarrow> a \<le> b \<Longrightarrow> 0 \<le> guarded_div a b \<and> guarded_div a b \<le> 1"
  by (auto simp: guarded_div_def)

lemma ctr_column_range:
  assumes ct: "\<forall>row \<in> set rs. 0 \<le> coerce parse (cell_at ls ''ctr'' row)
                 \<and> coerce parse (cell_at ls ''ctr'' row) \<le> 100"
    and cl: "\<forall>row \<in> set rs. 0 \<le> coerce parse (cell_at ls ''clicks'' row)"
    and der: "list_all (\<lambda>row. cell_at ls ''ctr'' row = NaN) rs \<longrightarrow>
                (\<forall>row \<in> set rs. coerce parse (cell_at ls ''clicks'' row)
                                  \<le> coerce parse (cell_at ls ''impressions'' row))"
    and present: "''ctr'' \<in> set ls"
  shows "\<forall>x \<in> set (ctr_column parse ls rs). 0 \<le> x \<and> x \<le> 1"
proof (cases "list_all (\<lambda>row. cell_at ls ''ctr'' row = NaN) rs")
  case True
  then have "ctr_column parse ls rs =
      map (\<lambda>row. guarded_div (coerce parse (cell_at ls ''clicks'' row))
                              (coerce parse (cell_at ls ''impressions'' row))) rs"
    by (simp add: ctr_column_def)
  moreover have "\<forall>row \<in> set rs. coerce parse (cell_at ls ''clicks'' row)
                                  \<le> coerce parse (cell_at ls ''impressions'' row)"
    using der True by blast
  ultimately show ?thesis using cl guarded_div_range by auto
next
  case False
  then have "ctr_column parse ls rs = convert_ctr parse (map (cell_at ls ''ctr'') rs)"
    using present by (simp add: ctr_column_def)
  moreover have "\<forall>c \<in> set (map (cell_at ls ''ctr'') rs). 0 \<le> coerce parse c \<and> coerce parse c \<le> 100"
    using ct by auto
  ultimately show ?thesis using convert_ctr_range by metis
qed

lemma convert_types_member:
  assumes "r \<in> set (convert_types parse ls rs)"
  obtains row c where "row \<in> set rs" and "c \<in> set (ctr_column parse ls rs)"
    and "r = coerce_row parse ls (row, c)"
proof -
  from assms obtain rc where rc: "rc \<in> set (zip rs (ctr_column parse ls rs))"
    and r: "r = coerce_row parse ls rc"
    by (auto simp: convert_types_def)
  obtain row c where p: "rc = (row, c)" by (cases rc)
  from rc p have "row \<in> set rs" and "c \<in> set (ctr_column parse ls rs)"
    by (auto dest: set_zip_leftD set_zip_rightD)
  with r p that show ?thesis by blast
qed

text \<open>Claim C5 as stated fails: coercion keeps a negative or fractional number as it is, and
  a ctr column whose maximum exceeds 100 stays above 1 after the division.\<close>

theorem normalized_record_counterexample:
  "(let out = prepare_data (\<lambda>s. None)
       \<lparr>columns = [''Query'', ''Page'', ''Clicks'', ''Impressions'', ''CTR'', ''Position''],
        rows = [[Str ''shoe'', Str ''p1'', Num (- 5), Num 10.5, Num 250, Num (- 1)]]\<rparr>
    in out = Inr \<lparr>labels = [''query'', ''page'', ''clicks'', ''impressions'', ''ctr'', ''position''],
                  prows = [\<lparr>query = [Str ''shoe''], page = [Str ''p1''], clicks = - 5,
                            impressions = 10.5, ctr = 2.5, position = - 1\<rparr>]\<rparr>
       \<and> (case out of
            Inl e \<Rightarrow> False
          | Inr pf \<Rightarrow> list_ex (\<lambda>r. clicks r < 0 \<and> 1 < ctr r \<and> position r < 0) (prows pf)))"
  by (simp add: prepare_data_def map_columns_header Let_def) (simp add: frame_eval)

text \<open>Claim C5, amended. Let the frame be accepted, let every clicks cell and every
  impressions cell that parses as a number be a non-negative integer, every position
  cell that parses be non-negative and every ctr cell that parses lie between 0 and 100,
  and, if the ctr column is entirely missing (so that ctr is derived), let the clicks of
  each row not exceed its impressions. Then every row of the prepared frame has clicks
  and impressions that are non-negative integers, a ctr in \<open>[0, 1]\<close> and a
  non-negative position.\<close>

theorem normalized_record_ranges:
  assumes ok: "prepare_data parse df = Inr pf"
    and cl: "\<forall>row \<in> set (rows df). \<forall>x.
               to_numeric parse (cell_at (labels pf) ''clicks'' row) = Some x \<longrightarrow> 0 \<le> x \<and> x \<in> \<int>"
    and im: "\<forall>row \<in> set (rows df). \<forall>x.
               to_numeric parse (cell_at (labels pf) ''impressions'' row) = Some x \<longrightarrow> 0 \<le> x \<and> x \<in> \<int>"
    and po: "\<forall>row \<in> set (rows df). \<forall>x.
               to_numeric parse (cell_at (labels pf) ''position'' row) = Some x \<longrightarrow> 0 \<le> x"
    and ct: "\<forall>row \<in> set (rows df). \<forall>x.
               to_numeric parse (cell_at (labels pf) ''ctr'' row) = Some x \<longrightarrow> 0 \<le> x \<and> x \<le> 100"
    and der: "list_all (\<lambda>row. cell_at (labels pf) ''ctr'' row = NaN) (rows df) \<longrightarrow>
                (\<forall>row \<in> set (rows df).
                   coerce parse (cell_at (labels pf) ''clicks'' row)
                     \<le> coerce parse (cell_at (labels pf) ''impressions'' row))"
  shows "\<forall>r \<in> set (prows pf).
           0 \<le> clicks r \<and> clicks r \<in> \<int> \<and> 0 \<le> impressions r \<and> impressions r \<in> \<int>
           \<and> 0 \<le> ctr r \<and> ctr r \<le> 1 \<and> 0 \<le> position r"
proof
  fix r assume "r \<in> set (prows pf)"
  then have "r \<in> set (convert_types parse (labels pf) (rows df))"
    using prepare_data_Inr(2) [OF ok] drop_dups_subset by (auto simp: drop_duplicates_def)
  then obtain row c where row: "row \<in> set (rows df)"
    and c: "c \<in> set (ctr_column parse (labels pf) (rows df))"
    and r: "r = coerce_row parse (labels pf) (row, c)"
    by (rule convert_types_member)
  have clicks: "0 \<le> coerce parse (cell_at (labels pf) ''clicks'' row)
      \<and> coerce parse (cell_at (labels pf) ''clicks'' row) \<in> \<int>" if "row \<in> set (rows df)" for row
    using cl that by (intro coerce_cases [where P = "\<lambda>x. 0 \<le> x \<and> x \<in> \<int>"]) auto
  have imps: "0 \<le> coerce parse (cell_at (labels pf) ''impressions'' row)
      \<and> coerce parse (cell_at (labels pf) ''impressions'' row) \<in> \<int>"
    using im row by (intro coerce_cases [where P = "\<lambda>x. 0 \<le> x \<and> x \<in> \<int>"]) auto
  have pos: "0 \<le> coerce parse (cell_at (labels pf) ''position'' row)"
    using po row by (intro coerce_cases [where P = "\<lambda>x. 0 \<le> x"]) auto
  have ctrs: "\<forall>row \<in> set (rows df). 0 \<le> coerce parse (cell_at (labels pf) ''ctr'' row)
                 \<and> coerce parse (cell_at (labels pf) ''ctr'' row) \<le> 100"
  proof
    fix row assume "row \<in> set (rows df)"
    with ct show "0 \<le> coerce parse (cell_at (labels pf) ''ctr'' row)
                 \<and> coerce parse (cell_at (labels pf) ''ctr'' row) \<le> 100"
      by (intro coerce_cases [where P = "\<lambda>x. 0 \<le> x \<and> x \<le> 100"]) auto
  qed
  have "''ctr'' \<in> set (labels pf)"
    using prepare_data_Inr(3) [OF ok] by (auto simp: required_cols_def)
  then have "\<forall>x \<in> set (ctr_column parse (labels pf) (rows df)). 0 \<le> x \<and> x \<le> 1"
    using ctr_column_range [OF ctrs _ der] clicks by blast
  with c have "0 \<le> c \<and> c \<le> 1" by blast
  with clicks [OF row] imps pos r
  show "0 \<le> clicks r \<and> clicks r \<in> \<int> \<and> 0 \<le> impressions r \<and> impressions r \<in> \<int>
           \<and> 0 \<le> ctr r \<and> ctr r \<le> 1 \<and> 0 \<le> position r"
    by (simp add: coerce_row_def)
qed

theorem normalized_record_ranges_witness:
  "prepare_data (\<lambda>s. None)
     \<lparr>columns = [''Query'', ''Page'', ''Clicks'', ''Impressions'', ''CTR'', ''Position''],
      rows = [[Str ''shoe'', Str ''p1'', Num 150, Num 12500, Num 1.2, Num 3.2],
              [Str ''boot'', Str ''p2'', Str ''n/a'', Num 1000, NaN, Str ''-'']]\<rparr>
   = Inr \<lparr>labels = [''query'', ''page'', ''clicks'', ''impressions'', ''ctr'', ''position''],
          prows = [\<lparr>query = [Str ''shoe''], page = [Str ''p1''], clicks = 150,
                    impressions = 12500, ctr = 0.012, position = 3.2\<rparr>,
                   \<lparr>query = [Str ''boot''], page = [Str ''p2''], clicks = 0,
                    impressions = 1000, ctr = 0, position = 0\<rparr>]\<rparr>
   \<and> list_all (\<lambda>r. 0 \<le> clicks r \<and> clicks r \<in> \<int> \<and> 0 \<le> impressions r \<and> impressions r \<in> \<int>
                    \<and> 0 \<le> ctr r \<and> ctr r \<le> 1 \<and> 0 \<le> position r)
        [\<lparr>query = [Str ''shoe''], page = [Str ''p1''], clicks = 150,
          impressions = 12500, ctr = 0.012, position = 3.2\<rparr>,
         \<lparr>query = [Str ''boot''], page = [Str ''p2''], clicks = 0,
          impressions = 1000, ctr = 0, position = 0\<rparr>]"
proof -
  let ?ls = "[''query'', ''page'', ''clicks'', ''impressions'', ''ctr'', ''position'']"
  let ?rs = "[[Str ''shoe'', Str ''p1'', Num 150, Num 12500, Num 1.2, Num 3.2],
              [Str ''boot'', Str ''p2'', Str ''n/a'', Num 1000, NaN, Str ''-'']]"
  have cl: "\<forall>row \<in> set ?rs. \<forall>x.
      to_numeric (\<lambda>s. None) (cell_at ?ls ''clicks'' row) = Some x \<longrightarrow> 0 \<le> x \<and> x \<in> \<int>"
    by (simp add: cell_at_def cells_at_def to_numeric_def)
  have im: "\<forall>row \<in> set ?rs. \<forall>x.
      to_numeric (\<lambda>s. None) (cell_at ?ls ''impressions'' row) = Some x \<longrightarrow> 0 \<le> x \<and> x \<in> \<int>"
    by (simp add: cell_at_def cells_at_def to_numeric_def)
  have po: "\<forall>row \<in> set ?rs. \<forall>x.
      to_numeric (\<lambda>s. None) (cell_at ?ls ''position'' row) = Some x \<longrightarrow> 0 \<le> x"
    by (simp add: cell_at_def cells_at_def to_numeric_def)
  have ct: "\<forall>row \<in> set ?rs. \<forall>x.
      to_numeric (\<lambda>s. None) (cell_at ?ls ''ctr'' row) = Some x \<longrightarrow> 0 \<le> x \<and> x \<le> 100"
    by (simp add: cell_at_def cells_at_def to_numeric_def)
  have der: "list_all (\<lambda>row. cell_at ?ls ''ctr'' row = NaN) ?rs \<longrightarrow>
      (\<forall>row \<in> set ?rs. coerce (\<lambda>s. None) (cell_at ?ls ''clicks'' row)
                         \<le> coerce (\<lambda>s. None) (cell_at ?ls ''impressions'' row))"
    by (simp add: cell_at_def cells_at_def)
  from normalized_record_ranges [OF prepare_mixed] cl im po ct der
  have "\<forall>r \<in> set [\<lparr>query = [Str ''shoe''], page = [Str ''p1''], clicks = 150,
          impressions = 12500, ctr = 0.012, position = 3.2\<rparr>,
         \<lparr>query = [Str ''boot''], page = [Str ''p2''], clicks = 0,
          impressions = 1000, ctr = 0, position = 0\<rparr>].
        0 \<le> clicks r \<and> clicks r \<in> \<int> \<and> 0 \<le> impressions r \<and> impressions r \<in> \<int>
                    \<and> 0 \<le> ctr r \<and> ctr r \<le> 1 \<and> 0 \<le> position r"
    by simp
  then show ?thesis using prepare_mixed by (simp add: list_all_iff)
qed

subsection \<open>The ctr of an aggregated group\<close>









subsection \<open>The performance buckets\<close>






subsection \<open>The empty table\<close>

lemma map_columns_required: "map_columns required_cols = required_cols"
  by (simp add: map_columns_def required_cols_def rename_def column_mapping_def
      lower_literals lower_def lower_char_def)

lemma prepare_empty:
  "prepare_data parse \<lparr>columns = required_cols, rows = []\<rparr> = Inr \<lparr>labels = required_cols, prows = []\<rparr>"
  by (simp add: prepare_data_def map_columns_required)
     (simp add: required_cols_def numeric_labels_def convert_types_def ctr_column_def
        drop_duplicates_def)

lemma groupby_empty_query:
  "groupby ''query'' query \<lparr>labels = required_cols, prows = []\<rparr> = Inr []"
  by (simp add: groupby_def required_cols_def groupby_agg_def)

lemma groupby_empty_page:
  "groupby ''page'' page \<lparr>labels = required_cols, prows = []\<rparr> = Inr []"
  by (simp add: groupby_def required_cols_def groupby_agg_def)

lemma classify_Nil: "classify pfx [] = Inl ZeroDivisionError"
  by (simp add: classify_def)

lemma bucket_Nil: "bucket t [] = Inl ZeroDivisionError"
  by (simp add: bucket_def)

text \<open>Claim C2 fails on the code. The frame with the six columns and no row is
  accepted by \<^verbatim>\<open>prepare_data\<close>, and on the prepared frame each of the three analyses
  raises \<^verbatim>\<open>ZeroDivisionError\<close> at its first percentage, where the claim has them
  return percentages equal to 0.\<close>

theorem empty_table_raises:
  "prepare_data parse \<lparr>columns = required_cols, rows = []\<rparr>
     = Inr \<lparr>labels = required_cols, prows = []\<rparr>
   \<and> query_analysis \<lparr>labels = required_cols, prows = []\<rparr> = Inl ZeroDivisionError
   \<and> url_analysis \<lparr>labels = required_cols, prows = []\<rparr> = Inl ZeroDivisionError
   \<and> url_performance_analysis thresholds \<lparr>labels = required_cols, prows = []\<rparr>
       = Inl ZeroDivisionError"
  by (simp add: prepare_empty query_analysis_def url_analysis_def url_performance_analysis_def
      groupby_empty_query groupby_empty_page classify_Nil bucket_Nil)

text \<open>Claim C9 fails on the code, on the same frame and by the same division:
  \<^verbatim>\<open>generate_insights\<close> calls \<^verbatim>\<open>query_analysis\<close> first and raises, where the claim
  has it return a list of recommendations.\<close>

theorem generate_insights_empty_raises:
  "generate_insights \<lparr>labels = required_cols, prows = []\<rparr> = Inl ZeroDivisionError"
  by (simp add: generate_insights_def query_analysis_def groupby_empty_query classify_Nil)

subsection \<open>The rules of \<^verbatim>\<open>generate_insights\<close> on a frame with queries and pages\<close>

text \<open>A result dictionary as a map.\<close>

lemma map_of_dict_set: "map_of (dict_set k v d) = (map_of d)(k \<mapsto> v)"
  by (induction d) auto

lemma map_of_fold_dict_set:
  "map_of (fold (\<lambda>(k, v). dict_set k v) es d) = fold (\<lambda>(k, v) m. m(k \<mapsto> v)) es (map_of d)"
  by (induction es arbitrary: d) (auto simp: map_of_dict_set)

lemma startswith_append: "startswith (k @ s) k"
  by (induction k) auto

text \<open>The last loop raises nothing when there is a group: each key it reads is a key of
  the dictionary. It writes only keys that begin with \<^verbatim>\<open>pct_\<close>.\<close>

lemma pct_loop_total:
  assumes "n \<noteq> 0" and "set keys \<subseteq> dom (map_of d)"
  shows "\<exists>r. pct_loop pfx n keys d = Inr r
           \<and> (\<forall>k. \<not> startswith k ''pct_'' \<longrightarrow> map_of r k = map_of d k)"
  using assms(2)
proof (induction keys arbitrary: d)
  case Nil
  then show ?case by simp
next
  case (Cons key keys)
  show ?case
  proof (cases "startswith key (pfx @ ''_'') \<and> key \<noteq> ''total_'' @ pfx")
    case False
    with Cons show ?thesis by auto
  next
    case True
    from Cons.prems obtain v where v: "map_of d key = Some v" by auto
    let ?d = "dict_set (''pct_'' @ key) (v / n * 100) d"
    have "set keys \<subseteq> dom (map_of ?d)"
      using Cons.prems by (auto simp: map_of_dict_set)
    from Cons.IH [OF this] obtain r where r: "pct_loop pfx n keys ?d = Inr r"
      and keep: "\<forall>k. \<not> startswith k ''pct_'' \<longrightarrow> map_of r k = map_of ?d k" by blast
    have "map_of ?d k = map_of d k" if "\<not> startswith k ''pct_''" for k
    proof -
      from that have "k \<noteq> ''pct_'' @ key" using startswith_append [of "''pct_''" key] by auto
      then show ?thesis by (simp add: map_of_dict_set)
    qed
    with keep have "\<forall>k. \<not> startswith k ''pct_'' \<longrightarrow> map_of r k = map_of d k" by simp
    moreover have "pct_loop pfx n (key # keys) d = Inr r"
      using True v r assms(1) by simp
    ultimately show ?thesis by blast
  qed
qed

text \<open>So an analysis returns whenever its aggregation has a group, and its counts are
  those of \<open>counts\<close>.\<close>

lemma classify_Inr:
  assumes "stats \<noteq> []"
  shows "\<exists>r. classify pfx stats = Inr r
           \<and> (\<forall>k. \<not> startswith k ''pct_'' \<longrightarrow> map_of r k = map_of (counts pfx stats) k)"
proof -
  have n: "real (length stats) \<noteq> 0" using assms by simp
  have "set (map fst (counts pfx stats)) \<subseteq> dom (map_of (counts pfx stats))"
    by (simp add: dom_map_of_conv_image_fst)
  from pct_loop_total [OF n this, of pfx] show ?thesis
    using n by (simp add: classify_def Let_def)
qed

lemma classify_Inr_nonempty: "classify pfx stats = Inr r \<Longrightarrow> stats \<noteq> []"
  by (auto simp: classify_def)

lemma counts_queries_lookup:
  "map_of (counts ''queries'' stats) ''queries_100clicks_1pct_ctr''
     = Some (real (length (filter (\<lambda>g. 100 \<le> gclicks g \<and> gctr g < 0.01) stats)))"
  unfolding counts_def Let_def map_of_fold_dict_set by simp

lemma classify_queries_lookup:
  assumes "classify ''queries'' stats = Inr r"
  shows "dict_get0 r ''queries_100clicks_1pct_ctr''
           = real (length (filter (\<lambda>g. 100 \<le> gclicks g \<and> gctr g < 0.01) stats))"
proof -
  from classify_Inr [OF classify_Inr_nonempty [OF assms], of "''queries''"] assms
  have "\<forall>k. \<not> startswith k ''pct_'' \<longrightarrow> map_of r k = map_of (counts ''queries'' stats) k"
    by auto
  moreover have "\<not> startswith ''queries_100clicks_1pct_ctr'' ''pct_''" by simp
  ultimately have "map_of r ''queries_100clicks_1pct_ctr''
      = map_of (counts ''queries'' stats) ''queries_100clicks_1pct_ctr''" by blast
  then show ?thesis by (simp add: dict_get0_def counts_queries_lookup)
qed

text \<open>The three rules, each on its own condition, in the order of the code.\<close>

lemma recommend_rules:
  "recommend q p =
     (if 10 < pct_opportunity_urls p then [HighOpportunity (pct_opportunity_urls p)] else [])
     @ (if 0 < dict_get0 q ''queries_100clicks_1pct_ctr''
        then [LowCtrQueries (dict_get0 q ''queries_100clicks_1pct_ctr'')] else [])
     @ (if 20 < pct_dead_urls p then [DeadUrls (pct_dead_urls p)] else [])"
  by (simp add: recommend_def Let_def)

lemma recommend_length: "length (recommend q p) \<le> 3"
  by (simp add: recommend_rules)

text \<open>Whenever \<^verbatim>\<open>generate_insights\<close> returns, its recommendations are the sentences of
  the rules that hold, in the fixed order, at most three: the percentage of opportunity
  pages under the default thresholds above 10, the number of queries with at least 100
  clicks and a ctr below 0.01 above 0, the percentage of dead pages above 20.\<close>

lemma generate_insights_rules:
  assumes "generate_insights df = Inr ins"
  shows "\<exists>query_stats p.
           groupby ''query'' query df = Inr query_stats
           \<and> url_performance_analysis None df = Inr p
           \<and> recommendations ins =
               (if 10 < pct_opportunity_urls p
                then [HighOpportunity (pct_opportunity_urls p)] else [])
               @ (if 0 < length (filter (\<lambda>g. 100 \<le> gclicks g \<and> gctr g < 0.01) query_stats)
                  then [LowCtrQueries
                          (real (length (filter (\<lambda>g. 100 \<le> gclicks g \<and> gctr g < 0.01) query_stats)))]
                  else [])
               @ (if 20 < pct_dead_urls p then [DeadUrls (pct_dead_urls p)] else [])
           \<and> length (recommendations ins) \<le> 3"
proof -
  from assms obtain q u p where q: "query_analysis df = Inr q"
    and u: "url_analysis df = Inr u"
    and p: "url_performance_analysis None df = Inr p"
    and r: "recommendations ins = recommend q p"
    by (auto simp: generate_insights_def split: sum.splits)
  from q obtain query_stats where g: "groupby ''query'' query df = Inr query_stats"
    and c: "classify ''queries'' query_stats = Inr q"
    by (auto simp: query_analysis_def split: sum.splits)
  have "dict_get0 q ''queries_100clicks_1pct_ctr''
      = real (length (filter (\<lambda>g. 100 \<le> gclicks g \<and> gctr g < 0.01) query_stats))"
    using c by (rule classify_queries_lookup)
  with r have "recommendations ins =
               (if 10 < pct_opportunity_urls p
                then [HighOpportunity (pct_opportunity_urls p)] else [])
               @ (if 0 < length (filter (\<lambda>g. 100 \<le> gclicks g \<and> gctr g < 0.01) query_stats)
                  then [LowCtrQueries
                          (real (length (filter (\<lambda>g. 100 \<le> gclicks g \<and> gctr g < 0.01) query_stats)))]
                  else [])
               @ (if 20 < pct_dead_urls p then [DeadUrls (pct_dead_urls p)] else [])"
    by (simp add: recommend_rules)
  moreover have "length (recommendations ins) \<le> 3"
    using r by (simp add: recommend_length)
  ultimately show ?thesis using g p by blast
qed

text \<open>It returns whenever the frame has a query and a page.\<close>

lemma bucket_Inr: "url_stats \<noteq> [] \<Longrightarrow> \<exists>p. bucket t url_stats = Inr p"
  by (simp add: bucket_def Let_def)

lemma generate_insights_returns:
  assumes "groupby ''query'' query df = Inr query_stats" and "query_stats \<noteq> []"
    and "groupby ''page'' page df = Inr url_stats" and "url_stats \<noteq> []"
  shows "\<exists>ins. generate_insights df = Inr ins"
proof -
  from classify_Inr [OF assms(2), of "''queries''"]
  obtain q where q: "classify ''queries'' query_stats = Inr q" by blast
  from classify_Inr [OF assms(4), of "''urls''"]
  obtain u where u: "classify ''urls'' url_stats = Inr u" by blast
  from bucket_Inr [OF assms(4), of default_thresholds]
  obtain p where p: "bucket default_thresholds url_stats = Inr p" by blast
  show ?thesis
    using assms(1,3) q u p
    by (simp add: generate_insights_def query_analysis_def url_analysis_def
        url_performance_analysis_def)
qed

end
